theory Spec2Isabelle
  imports Main "HOL-Library.AList" "HOL-Library.Sublist"
begin

section \<open>Values of the platform\<close>

text \<open>
  The client is TypeScript running in a browser. The values it handles are JSON documents
  (what \<^verbatim>\<open>response.json()\<close> and \<^verbatim>\<open>JSON.parse\<close> produce). An object is the list of
  its own properties. A number is kept as the text JavaScript prints for it
  (\<^verbatim>\<open>String(n)\<close>: \<^verbatim>\<open>7\<close>, \<^verbatim>\<open>0.5\<close>, \<^verbatim>\<open>1e+21\<close>; both zeros print \<^verbatim>\<open>0\<close>): the code
  never computes with a number of a response, it tests it for truthiness and puts it into
  a string.
\<close>

datatype json =
    JNull
  | JBool bool
  | JNum string
  | JStr string
  | JArr "json list"
  | JObj "(string \<times> json) list"

text \<open>The exceptions the code can see: its own \<^verbatim>\<open>new Error(msg)\<close>, and the platform's.\<close>

datatype js_error =
    Error string
  | TypeError
  | SyntaxError
  | QuotaExceededError

text \<open>
  An awaited computation either returns, throws, or is still waiting for a response that
  the network has not delivered.
\<close>

datatype 'a outcome = Returned 'a | Threw js_error | Pending

subsection \<open>Property access, truthiness, string conversion\<close>

text \<open>
  \<^verbatim>\<open>v.name\<close> for the property names the code reads (\<^verbatim>\<open>task_id\<close>, \<^verbatim>\<open>status\<close>,
  \<^verbatim>\<open>error\<close>, \<^verbatim>\<open>articles\<close>): \<^verbatim>\<open>null\<close> throws a TypeError, an object gives its property
  or \<^verbatim>\<open>undefined\<close> (\<open>None\<close>), every other JSON value gives \<^verbatim>\<open>undefined\<close>.
\<close>

fun get_prop :: "json \<Rightarrow> string \<Rightarrow> js_error + json option" where
  "get_prop JNull name = Inl TypeError"
| "get_prop (JObj props) name = Inr (map_of props name)"
| "get_prop v name = Inr None"

text \<open>\<^verbatim>\<open>v?.name\<close>: optional chaining gives \<^verbatim>\<open>undefined\<close> on \<^verbatim>\<open>null\<close> instead of throwing.\<close>

fun get_prop_opt :: "json \<Rightarrow> string \<Rightarrow> json option" where
  "get_prop_opt (JObj props) name = map_of props name"
| "get_prop_opt v name = None"

text \<open>JavaScript truthiness; \<open>None\<close> is \<^verbatim>\<open>undefined\<close>.\<close>

fun truthy :: "json \<Rightarrow> bool" where
  "truthy JNull = False"
| "truthy (JBool b) = b"
| "truthy (JNum n) = (n \<noteq> ''0'')"
| "truthy (JStr s) = (s \<noteq> [])"
| "truthy (JArr xs) = True"
| "truthy (JObj props) = True"

fun truthy_opt :: "json option \<Rightarrow> bool" where
  "truthy_opt None = False"
| "truthy_opt (Some v) = truthy v"

definition digit_char :: "nat \<Rightarrow> char" where
  "digit_char d = char_of (48 + d)"

function string_of_nat :: "nat \<Rightarrow> string" where
  "string_of_nat n =
     (if n < 10 then [digit_char n] else string_of_nat (n div 10) @ [digit_char (n mod 10)])"
  by pat_completeness auto
termination
  by (relation "measure (\<lambda>n. n)") auto

text \<open>
  \<^verbatim>\<open>String(v)\<close>, as a template string \<^verbatim>\<open>`${v}`\<close> and \<^verbatim>\<open>new Error(v)\<close> apply it.
  An object is converted by its \<^verbatim>\<open>toString\<close>: the inherited one gives
  \<^verbatim>\<open>[object Object]\<close>; an own \<^verbatim>\<open>toString\<close> property of a JSON document is never a function,
  and the conversion throws a TypeError. An array joins the conversions of its elements with
  commas, \<^verbatim>\<open>null\<close> elements rendered empty, and throws where an element does.
\<close>

fun ToString :: "json \<Rightarrow> js_error + string"
  and join_elements :: "json list \<Rightarrow> js_error + string" where
  "ToString JNull = Inr ''null''"
| "ToString (JBool b) = Inr (if b then ''true'' else ''false'')"
| "ToString (JNum n) = Inr n"
| "ToString (JStr s) = Inr s"
| "ToString (JArr xs) = join_elements xs"
| "ToString (JObj props) =
     (if map_of props ''toString'' = None then Inr ''[object Object]'' else Inl TypeError)"
| "join_elements [] = Inr []"
| "join_elements (x # xs) =
     (case (if x = JNull then Inr [] else ToString x) of
        Inl e \<Rightarrow> Inl e
      | Inr s \<Rightarrow>
          if xs = [] then Inr s
          else (case join_elements xs of
                  Inl e \<Rightarrow> Inl e
                | Inr t \<Rightarrow> Inr (s @ '','' @ t)))"

section \<open>The network\<close>

text \<open>
  What \<^verbatim>\<open>fetch\<close> resolves to: the status line, and what \<^verbatim>\<open>response.json()\<close> gives
  (\<open>None\<close> when the body is not JSON and the call rejects with a SyntaxError).
\<close>

record response =
  status :: nat
  statusText :: string
  json_body :: "json option"

text \<open>\<^verbatim>\<open>response.ok\<close> is the platform's test for a status in the range 200 to 299.\<close>

definition ok :: "response \<Rightarrow> bool" where
  "ok r = (200 \<le> status r \<and> status r \<le> 299)"

text \<open>A \<^verbatim>\<open>fetch\<close> resolves with a response or rejects (network failure, a TypeError).\<close>

datatype fetch_result = Resolved response | Rejected

text \<open>
  \<^verbatim>\<open>RequestInit\<close>, with the three properties the code sets. \<open>None\<close> is a property that
  is not present. Headers are a plain object: an association list in insertion order.
\<close>

record request_init =
  http_method :: "string option"
  headers :: "(string \<times> string) list option"
  body :: "string option"

definition no_options :: request_init where
  "no_options = \<lparr>http_method = None, headers = None, body = None\<rparr>"

text \<open>What the code does to the outside world, in order.\<close>

datatype event =
    Fetch string request_init
  | SetTimeout nat

text \<open>
  The object spread \<^verbatim>\<open>{ ...a, ...b }\<close> on plain objects: every property of \<open>b\<close> is assigned
  onto \<open>a\<close>, replacing the value of a key already there and appending a new key.
\<close>

definition spread :: "(string \<times> string) list \<Rightarrow> (string \<times> string) list \<Rightarrow> (string \<times> string) list" where
  "spread a b = fold (\<lambda>(k, v) acc. AList.update k v acc) b a"

section \<open>config/api.ts\<close>

text \<open>
  \<^verbatim>\<open>API_BASE_URL = process.env.NEXT_PUBLIC_API_URL || 'http://localhost:8000'\<close>; the
  environment variable is the parameter (\<open>None\<close> when unset).
\<close>

definition API_BASE_URL :: "string option \<Rightarrow> string" where
  "API_BASE_URL env = (case env of None \<Rightarrow> ''http://localhost:8000''
     | Some u \<Rightarrow> if u = [] then ''http://localhost:8000'' else u)"

text \<open>
  The two endpoint functions are template strings over their argument, which the poller
  passes as the backend gave it: they throw where its conversion to a string throws.
\<close>

definition TASK_STATUS :: "string \<Rightarrow> json \<Rightarrow> js_error + string" where
  "TASK_STATUS base taskId =
     (case ToString taskId of
        Inl e \<Rightarrow> Inl e
      | Inr t \<Rightarrow> Inr (base @ ''/api/tasks/'' @ t))"

definition TASK_RESULT :: "string \<Rightarrow> json \<Rightarrow> js_error + string" where
  "TASK_RESULT base taskId =
     (case ToString taskId of
        Inl e \<Rightarrow> Inl e
      | Inr t \<Rightarrow> Inr (base @ ''/api/tasks/'' @ t @ ''/result''))"

definition NEWS_DISCOVERER :: "string \<Rightarrow> string" where
  "NEWS_DISCOVERER base = base @ ''/api/news/discoverer''"

subsection \<open>apiCall\<close>

definition apiCall_url :: "string \<Rightarrow> string \<Rightarrow> string" where
  "apiCall_url base endpoint = (if prefix ''http'' endpoint then endpoint else base @ endpoint)"

text \<open>
  The second argument of \<^verbatim>\<open>fetch\<close>:
  \<^verbatim>\<open>{ headers: { 'Content-Type': 'application/json', ...options.headers }, ...options }\<close>.
  The outer spread comes after the \<^verbatim>\<open>headers\<close> property, so a \<^verbatim>\<open>headers\<close> property of
  \<open>options\<close> replaces the merged object.
\<close>

definition merged_headers :: "request_init \<Rightarrow> (string \<times> string) list" where
  "merged_headers options =
     spread [(''Content-Type'', ''application/json'')]
       (case headers options of None \<Rightarrow> [] | Some h \<Rightarrow> h)"

definition apiCall_init :: "request_init \<Rightarrow> request_init" where
  "apiCall_init options =
     \<lparr>http_method = http_method options,
      headers = (case headers options of None \<Rightarrow> Some (merged_headers options) | Some h \<Rightarrow> Some h),
      body = body options\<rparr>"

text \<open>Lines 40 to 44: the status check and the decoding of the body.\<close>

definition apiCall_response :: "fetch_result \<Rightarrow> json outcome" where
  "apiCall_response x =
     (case x of
        Rejected \<Rightarrow> Threw TypeError
      | Resolved r \<Rightarrow>
          if \<not> ok r then
            Threw (Error (''API Error: '' @ string_of_nat (status r) @ '' '' @ statusText r))
          else (case json_body r of None \<Rightarrow> Threw SyntaxError | Some v \<Rightarrow> Returned v))"

text \<open>
  \<open>apiCall\<close> against a script: the responses the network gives to the successive calls.
  It issues the request, takes the next response of the script, and returns the outcome,
  the events and the rest of the script. With no response left it is still waiting.
\<close>

definition apiCall ::
  "string \<Rightarrow> string \<Rightarrow> request_init \<Rightarrow> fetch_result list
    \<Rightarrow> json outcome \<times> event list \<times> fetch_result list" where
  "apiCall base endpoint options script =
     (let ev = Fetch (apiCall_url base endpoint) (apiCall_init options) in
      case script of
        [] \<Rightarrow> (Pending, [ev], [])
      | x # rest \<Rightarrow> (apiCall_response x, [ev], rest))"

subsection \<open>executeTask\<close>

text \<open>
  \<^verbatim>\<open>new Error(status.error || 'Task failed')\<close>: the error that is thrown. The constructor
  converts a truthy \<^verbatim>\<open>status.error\<close> to a string, and where that conversion throws, its
  TypeError is what is thrown.
\<close>

definition task_failure :: "json option \<Rightarrow> js_error" where
  "task_failure err =
     (case err of
        None \<Rightarrow> Error ''Task failed''
      | Some v \<Rightarrow>
          if truthy v then (case ToString v of Inl e \<Rightarrow> e | Inr m \<Rightarrow> Error m)
          else Error ''Task failed'')"

text \<open>
  The inner \<^verbatim>\<open>pollForResults\<close>, closed over \<^verbatim>\<open>initialResponse.task_id\<close>. Each round
  builds the status address, takes the next response of the script, and the recursive call
  comes after the \<^verbatim>\<open>setTimeout(resolve, 2000)\<close>.
\<close>

function pollForResults :: "string \<Rightarrow> json \<Rightarrow> fetch_result list \<Rightarrow> json outcome \<times> event list" where
  "pollForResults base task_id script =
     (case TASK_STATUS base task_id of
        Inl e \<Rightarrow> (Threw e, [])
      | Inr status_url \<Rightarrow>
          (case apiCall base status_url no_options script of
             (Returned st, evs, rest) \<Rightarrow>
               (case get_prop st ''status'' of
                  Inl e \<Rightarrow> (Threw e, evs)
                | Inr s \<Rightarrow>
                    if s = Some (JStr ''completed'') then
                      (case TASK_RESULT base task_id of
                         Inl e \<Rightarrow> (Threw e, evs)
                       | Inr result_url \<Rightarrow>
                           (case apiCall base result_url no_options rest of
                              (res, evs', rest') \<Rightarrow> (res, evs @ evs')))
                    else if s = Some (JStr ''failed'') then
                      (case get_prop st ''error'' of
                         Inl e \<Rightarrow> (Threw e, evs)
                       | Inr err \<Rightarrow> (Threw (task_failure err), evs))
                    else
                      (case pollForResults base task_id rest of
                         (res, evs') \<Rightarrow> (res, evs @ SetTimeout 2000 # evs')))
           | (Threw e, evs, rest) \<Rightarrow> (Threw e, evs)
           | (Pending, evs, rest) \<Rightarrow> (Pending, evs)))"
  by pat_completeness auto
termination
  by (relation "measure (\<lambda>(base, task_id, script). length script)")
     (auto simp: apiCall_def Let_def split: list.splits)

declare pollForResults.simps [simp del]

definition executeTask ::
  "(json \<Rightarrow> string) \<Rightarrow> string \<Rightarrow> string \<Rightarrow> json \<Rightarrow> fetch_result list
    \<Rightarrow> json outcome \<times> event list" where
  "executeTask JSON_stringify base endpoint payload script =
     (case apiCall base endpoint
             \<lparr>http_method = Some ''POST'', headers = None, body = Some (JSON_stringify payload)\<rparr>
             script of
        (Returned initialResponse, evs, rest) \<Rightarrow>
          (case get_prop initialResponse ''task_id'' of
             Inl e \<Rightarrow> (Threw e, evs)
           | Inr None \<Rightarrow> (Returned initialResponse, evs)
           | Inr (Some task_id) \<Rightarrow>
               if truthy task_id then
                 (case pollForResults base task_id rest of
                    (res, evs') \<Rightarrow> (res, evs @ evs'))
               else (Returned initialResponse, evs))
      | (Threw e, evs, rest) \<Rightarrow> (Threw e, evs)
      | (Pending, evs, rest) \<Rightarrow> (Pending, evs))"

section \<open>The artifact cache: localStorage\<close>

text \<open>
  The tab's \<^verbatim>\<open>localStorage\<close>: string keys to string values. \<^verbatim>\<open>setItem\<close> throws a
  QuotaExceededError, and leaves the store as it was, when the store would grow beyond its
  capacity (\<open>None\<close>: no limit); this is what the \<^verbatim>\<open>try\<close> around the writes is for.
\<close>

record storage =
  items :: "(string \<times> string) list"
  capacity :: "nat option"

definition used :: "(string \<times> string) list \<Rightarrow> nat" where
  "used kvs = sum_list (map (\<lambda>(k, v). length k + length v) kvs)"

definition getItem :: "storage \<Rightarrow> string \<Rightarrow> string option" where
  "getItem store key = map_of (items store) key"

definition setItem :: "storage \<Rightarrow> string \<Rightarrow> string \<Rightarrow> storage \<times> js_error option" where
  "setItem store key val =
     (let items' = AList.update key val (items store) in
      case capacity store of
        None \<Rightarrow> (store\<lparr>items := items'\<rparr>, None)
      | Some c \<Rightarrow>
          if used items' \<le> c then (store\<lparr>items := items'\<rparr>, None)
          else (store, Some QuotaExceededError))"

subsection \<open>app/news-discoverer/page.tsx: handleDiscover, lines 66 to 73\<close>

text \<open>\<^verbatim>\<open>Array.isArray((data as any)?.articles) ? (data as any).articles : []\<close>\<close>

definition discovered_articles :: "json \<Rightarrow> json list" where
  "discovered_articles data =
     (case get_prop_opt data ''articles'' of
        Some (JArr xs) \<Rightarrow> xs
      | _ \<Rightarrow> [])"

text \<open>
  The three writes, in the source's order, inside their \<^verbatim>\<open>try\<close>: the first write that
  throws ends the block with a \<^verbatim>\<open>console.warn\<close>, the earlier writes staying in the store.
  \<open>now\<close> is \<^verbatim>\<open>new Date().toISOString()\<close>. The result is the store and the console.
\<close>

definition handleDiscover_persist ::
  "(json \<Rightarrow> string) \<Rightarrow> json \<Rightarrow> string \<Rightarrow> string \<Rightarrow> storage
    \<Rightarrow> storage \<times> (string \<times> js_error) list" where
  "handleDiscover_persist JSON_stringify data query now store =
     (let articles = discovered_articles data in
      case setItem store ''bynd:last_discovered_articles'' (JSON_stringify (JArr articles)) of
        (s1, Some e) \<Rightarrow> (s1, [(''Failed to persist discovered articles:'', e)])
      | (s1, None) \<Rightarrow>
          (case setItem s1 ''bynd:last_discovered_query'' query of
             (s2, Some e) \<Rightarrow> (s2, [(''Failed to persist discovered articles:'', e)])
           | (s2, None) \<Rightarrow>
               (case setItem s2 ''bynd:last_discovered_at'' now of
                  (s3, Some e) \<Rightarrow> (s3, [(''Failed to persist discovered articles:'', e)])
                | (s3, None) \<Rightarrow> (s3, []))))"

subsection \<open>The content classifier and data exporter pages: loadFromDiscoverer\<close>

text \<open>The React state the function writes.\<close>

record page_state =
  discovered :: "json list"
  selectedIndex :: int
  articles :: string

text \<open>What a run of the function leaves behind: the state, the alerts shown, the console.\<close>

record load_result =
  page :: page_state
  alerts :: "string list"
  console :: "js_error list"

text \<open>
  The body of the \<^verbatim>\<open>try\<close>. \<^verbatim>\<open>JSON.parse\<close> is the platform's (\<open>None\<close>: it throws a
  SyntaxError), as is \<^verbatim>\<open>JSON.stringify(v, null, 2)\<close>. A \<^verbatim>\<open>null\<close> or empty \<open>raw\<close> is
  falsy and stands for the empty array.
\<close>

definition loadFromDiscoverer_try ::
  "(string \<Rightarrow> json option) \<Rightarrow> (json \<Rightarrow> string) \<Rightarrow> storage \<Rightarrow> page_state
    \<Rightarrow> js_error + load_result" where
  "loadFromDiscoverer_try JSON_parse JSON_stringify_pretty store st =
     (let raw = getItem store ''bynd:last_discovered_articles'';
          parsed = (case raw of
                      None \<Rightarrow> Some (JArr [])
                    | Some r \<Rightarrow> if r = [] then Some (JArr []) else JSON_parse r)
      in case parsed of
           None \<Rightarrow> Inl SyntaxError
         | Some (JArr arr) \<Rightarrow>
             if arr = [] then
               Inr \<lparr>page = st,
                    alerts = [''No discovered articles found. Run News Discoverer first.''],
                    console = []\<rparr>
             else
               Inr \<lparr>page = st\<lparr>discovered := arr, selectedIndex := - 1,
                                articles := JSON_stringify_pretty (JObj [(''articles'', JArr arr)])\<rparr>,
                    alerts = [], console = []\<rparr>
         | Some other \<Rightarrow>
             Inr \<lparr>page = st,
                  alerts = [''No discovered articles found. Run News Discoverer first.''],
                  console = []\<rparr>)"

text \<open>The \<^verbatim>\<open>catch\<close>: \<^verbatim>\<open>console.error(e)\<close> and an alert; nothing is rethrown.\<close>

definition loadFromDiscoverer ::
  "(string \<Rightarrow> json option) \<Rightarrow> (json \<Rightarrow> string) \<Rightarrow> storage \<Rightarrow> page_state \<Rightarrow> load_result" where
  "loadFromDiscoverer JSON_parse JSON_stringify_pretty store st =
     (case loadFromDiscoverer_try JSON_parse JSON_stringify_pretty store st of
        Inr r \<Rightarrow> r
      | Inl e \<Rightarrow> \<lparr>page = st, alerts = [''Failed to load discovered articles''], console = [e]\<rparr>)"

section \<open>contexts/SessionContext: the session identity\<close>

record session =
  userId :: string
  sessionId :: string

text \<open>
  \<^verbatim>\<open>Math.random().toString(36).substr(2, 9)\<close>, on the string \<open>r\<close> that
  \<^verbatim>\<open>Math.random().toString(36)\<close> gave.
\<close>

definition random_id :: "string \<Rightarrow> string" where
  "random_id r = take 9 (drop 2 r)"

text \<open>
  A render of \<^verbatim>\<open>SessionProvider\<close>. Both \<^verbatim>\<open>useState\<close> calls evaluate their argument on
  every render, with fresh random draws \<open>r1\<close> and \<open>r2\<close>, and use it on the first render only,
  when the provider has no state yet (\<open>None\<close>). The result is the state, which is the value
  the context provides.
\<close>

definition SessionProvider :: "session option \<Rightarrow> string \<Rightarrow> string \<Rightarrow> session" where
  "SessionProvider hooks r1 r2 =
     (case hooks of
        None \<Rightarrow> \<lparr>userId = ''user_'' @ random_id r1, sessionId = ''session_'' @ random_id r2\<rparr>
      | Some s \<Rightarrow> s)"

definition setUserId :: "string \<Rightarrow> session \<Rightarrow> session" where
  "setUserId v s = s\<lparr>userId := v\<rparr>"

definition setSessionId :: "string \<Rightarrow> session \<Rightarrow> session" where
  "setSessionId v s = s\<lparr>sessionId := v\<rparr>"

text \<open>\<open>useSession\<close> on the value of the context; \<open>None\<close> is \<^verbatim>\<open>undefined\<close>: no provider above.\<close>

definition useSession :: "session option \<Rightarrow> js_error + session" where
  "useSession context =
     (case context of
        None \<Rightarrow> Inl (Error ''useSession must be used within a SessionProvider'')
      | Some c \<Rightarrow> Inr c)"

section \<open>Vocabulary of the properties\<close>

text \<open>The three kinds of request \<open>executeTask\<close> issues.\<close>

definition submit_call :: "(json \<Rightarrow> string) \<Rightarrow> string \<Rightarrow> string \<Rightarrow> json \<Rightarrow> event" where
  "submit_call JSON_stringify base endpoint payload =
     Fetch (apiCall_url base endpoint)
       (apiCall_init \<lparr>http_method = Some ''POST'', headers = None, body = Some (JSON_stringify payload)\<rparr>)"

text \<open>In the status and result calls \<open>t\<close> is the task identifier as a string.\<close>

definition status_call :: "string \<Rightarrow> string \<Rightarrow> event" where
  "status_call base t =
     Fetch (apiCall_url base (base @ ''/api/tasks/'' @ t)) (apiCall_init no_options)"

definition result_call :: "string \<Rightarrow> string \<Rightarrow> event" where
  "result_call base t =
     Fetch (apiCall_url base (base @ ''/api/tasks/'' @ t @ ''/result'')) (apiCall_init no_options)"

text \<open>The \<^verbatim>\<open>status\<close> property of a response that \<open>apiCall\<close> returns; \<open>None\<close> for a response
  that makes \<open>apiCall\<close> or the property access throw.\<close>

definition status_of :: "fetch_result \<Rightarrow> json option option" where
  "status_of x =
     (case apiCall_response x of
        Returned st \<Rightarrow> (case get_prop st ''status'' of Inr s \<Rightarrow> Some s | Inl e \<Rightarrow> None)
      | _ \<Rightarrow> None)"

text \<open>A status response that is not terminal: the poll goes on after it.\<close>

definition non_terminal :: "fetch_result \<Rightarrow> bool" where
  "non_terminal x =
     (case status_of x of
        None \<Rightarrow> False
      | Some s \<Rightarrow> s \<noteq> Some (JStr ''completed'') \<and> s \<noteq> Some (JStr ''failed''))"

definition completed :: "fetch_result \<Rightarrow> bool" where
  "completed x = (status_of x = Some (Some (JStr ''completed'')))"

text \<open>The submission was answered with a truthy task identifier.\<close>

definition asynchronous :: "fetch_result \<Rightarrow> json \<Rightarrow> bool" where
  "asynchronous x task_id =
     (case apiCall_response x of
        Returned initialResponse \<Rightarrow> get_prop initialResponse ''task_id'' = Inr (Some task_id) \<and> truthy task_id
      | _ \<Rightarrow> False)"

section \<open>Sample documents\<close>

text \<open>A response with status 200 and the JSON body \<open>v\<close>.\<close>

definition http_ok :: "json \<Rightarrow> fetch_result" where
  "http_ok v = Resolved \<lparr>status = 200, statusText = ''OK'', json_body = Some v\<rparr>"

text \<open>The documents of the worked scenarios: a discovery payload and a one-article list.\<close>

definition sample_payload :: json where
  "sample_payload =
     JObj [(''query'', JStr ''AI companies''), (''days_back'', JNum ''7''),
           (''max_articles'', JNum ''50'')]"

definition sample_articles :: "json list" where
  "sample_articles = [JObj [(''title'', JStr ''A'')]]"

text \<open>
  \<^verbatim>\<open>JSON.stringify\<close>, \<^verbatim>\<open>JSON.parse\<close> and \<^verbatim>\<open>JSON.stringify(v, null, 2)\<close> are the
  platform's, and parameters of the functions above. The scenarios below run them on a handful
  of documents; these tables give the platform's text for those documents, and are not used
  on any other.
\<close>

definition sample_JSON_stringify :: "json \<Rightarrow> string" where
  \<open>sample_JSON_stringify v =
     (if v = sample_payload then ''{"query":"AI companies","days_back":7,"max_articles":50}''
      else if v = JArr sample_articles then ''[{"title":"A"}]''
      else if v = JArr [] then ''[]''
      else ''null'')\<close>

definition sample_JSON_parse :: "string \<Rightarrow> json option" where
  \<open>sample_JSON_parse s =
     (if s = ''[{"title":"A"}]'' then Some (JArr sample_articles)
      else if s = ''[]'' then Some (JArr [])
      else if s = ''null'' then Some JNull
      else None)\<close>

definition sample_JSON_stringify_pretty :: "json \<Rightarrow> string" where
  \<open>sample_JSON_stringify_pretty v =
     (if v = JObj [(''articles'', JArr sample_articles)] then
        ''{'' @ [CHR 0x0A] @ ''  "articles": ['' @ [CHR 0x0A] @ ''    {'' @ [CHR 0x0A]
        @ ''      "title": "A"'' @ [CHR 0x0A] @ ''    }'' @ [CHR 0x0A] @ ''  ]'' @ [CHR 0x0A] @ ''}''
      else ''null'')\<close>

section \<open>The poll loop, round by round\<close>

lemma TASK_urls:
  assumes "ToString task_id = Inr t"
  shows "TASK_STATUS base task_id = Inr (base @ ''/api/tasks/'' @ t)"
    and "TASK_RESULT base task_id = Inr (base @ ''/api/tasks/'' @ t @ ''/result'')"
  using assms by (simp_all add: TASK_STATUS_def TASK_RESULT_def)


lemma pollForResults_Nil:
  "ToString task_id = Inr t \<Longrightarrow> pollForResults base task_id [] = (Pending, [status_call base t])"
  by (subst pollForResults.simps) (simp add: TASK_urls apiCall_def status_call_def)

lemma pollForResults_Cons:
  assumes "ToString task_id = Inr t"
  shows "pollForResults base task_id (x # rest) =
     (case apiCall_response x of
        Returned st \<Rightarrow>
          (case get_prop st ''status'' of
             Inl e \<Rightarrow> (Threw e, [status_call base t])
           | Inr s \<Rightarrow>
               if s = Some (JStr ''completed'') then
                 (case rest of
                    [] \<Rightarrow> (Pending, [status_call base t, result_call base t])
                  | y # rest' \<Rightarrow> (apiCall_response y, [status_call base t, result_call base t]))
               else if s = Some (JStr ''failed'') then
                 (case get_prop st ''error'' of
                    Inl e \<Rightarrow> (Threw e, [status_call base t])
                  | Inr err \<Rightarrow> (Threw (task_failure err), [status_call base t]))
               else
                 (fst (pollForResults base task_id rest),
                  status_call base t # SetTimeout 2000 # snd (pollForResults base task_id rest)))
      | Threw e \<Rightarrow> (Threw e, [status_call base t])
      | Pending \<Rightarrow> (Pending, [status_call base t]))"
  by (subst pollForResults.simps)
     (simp add: TASK_urls [OF assms] apiCall_def status_call_def result_call_def
        split: outcome.splits sum.splits list.splits prod.splits)

lemma poll_non_terminal:
  assumes "ToString task_id = Inr t" and "non_terminal x"
  shows "pollForResults base task_id (x # rest) =
       (fst (pollForResults base task_id rest),
        status_call base t # SetTimeout 2000 # snd (pollForResults base task_id rest))"
  using assms(2)
  by (simp add: pollForResults_Cons [OF assms(1)] non_terminal_def status_of_def
      split: outcome.splits sum.splits option.splits)

lemma poll_terminal_trace:
  assumes "ToString task_id = Inr t" and "\<not> non_terminal x"
  shows "snd (pollForResults base task_id (x # rest)) =
       status_call base t # (if completed x then [result_call base t] else [])"
  using assms(2)
  by (auto simp add: pollForResults_Cons [OF assms(1)] non_terminal_def completed_def status_of_def
      split: outcome.splits sum.splits option.splits list.splits)

lemma poll_trace:
  assumes "ToString task_id = Inr t"
  shows "snd (pollForResults base task_id rs) =
     concat (replicate (length (takeWhile non_terminal rs)) [status_call base t, SetTimeout 2000])
     @ status_call base t
     # (case dropWhile non_terminal rs of
          [] \<Rightarrow> []
        | y # rest \<Rightarrow> if completed y then [result_call base t] else [])"
proof (induction rs)
  case Nil
  show ?case by (simp add: pollForResults_Nil [OF assms])
next
  case (Cons x rs)
  show ?case
  proof (cases "non_terminal x")
    case True
    then show ?thesis using Cons.IH by (simp add: poll_non_terminal [OF assms])
  next
    case False
    then show ?thesis by (simp add: poll_terminal_trace [OF assms])
  qed
qed

lemma executeTask_asynchronous:
  "asynchronous x task_id \<Longrightarrow>
     executeTask JSON_stringify base endpoint payload (x # rs) =
       (fst (pollForResults base task_id rs),
        submit_call JSON_stringify base endpoint payload # snd (pollForResults base task_id rs))"
  by (auto simp add: executeTask_def apiCall_def asynchronous_def submit_call_def
      split: outcome.splits sum.splits option.splits prod.splits)

lemma poll_all_non_terminal:
  assumes "ToString task_id = Inr t"
  shows "\<forall>y\<in>set rs. non_terminal y \<Longrightarrow> fst (pollForResults base task_id rs) = Pending"
  by (induction rs) (simp_all add: pollForResults_Nil [OF assms] poll_non_terminal [OF assms])










subsection \<open>The requests are distinct events\<close>



lemma submit_call_neq_status_call: "submit_call S base e p \<noteq> status_call base t"
  by (simp add: submit_call_def status_call_def apiCall_init_def no_options_def)


lemma status_call_neq_timeout: "status_call base t \<noteq> SetTimeout n" "result_call base t \<noteq> SetTimeout n"
  by (simp_all add: status_call_def result_call_def)

lemma count_list_rounds:
  "a \<noteq> b \<Longrightarrow> count_list (concat (replicate n [a, b]) @ [a]) a = Suc n"
  by (induction n) simp_all


subsection \<open>Reading back what was stored\<close>

lemma getItem_setItem:
  "setItem store key val = (store', None) \<Longrightarrow>
     getItem store' k = (if k = key then Some val else getItem store k)"
  by (auto simp add: setItem_def getItem_def Let_def update_conv' split: option.splits if_splits)

lemma persist_ok:
  assumes "handleDiscover_persist JSON_stringify data query now store = (store', [])"
  shows "getItem store' ''bynd:last_discovered_articles'' = Some (JSON_stringify (JArr (discovered_articles data)))
       \<and> getItem store' ''bynd:last_discovered_query'' = Some query
       \<and> getItem store' ''bynd:last_discovered_at'' = Some now"
proof -
  from assms obtain s1 s2 where
    w1: "setItem store ''bynd:last_discovered_articles'' (JSON_stringify (JArr (discovered_articles data))) = (s1, None)" and
    w2: "setItem s1 ''bynd:last_discovered_query'' query = (s2, None)" and
    w3: "setItem s2 ''bynd:last_discovered_at'' now = (store', None)"
    by (auto simp add: handleDiscover_persist_def Let_def split: prod.splits option.splits)
  show ?thesis
    by (simp add: getItem_setItem [OF w3] getItem_setItem [OF w2] getItem_setItem [OF w1])
qed

lemma load_stored:
  assumes "getItem store ''bynd:last_discovered_articles'' = Some raw"
      and "raw \<noteq> []" and "JSON_parse raw = Some (JArr xs)"
  shows "loadFromDiscoverer JSON_parse JSON_stringify_pretty store st =
           (if xs = [] then
              \<lparr>page = st, alerts = [''No discovered articles found. Run News Discoverer first.''],
               console = []\<rparr>
            else
              \<lparr>page = st\<lparr>discovered := xs, selectedIndex := - 1,
                          articles := JSON_stringify_pretty (JObj [(''articles'', JArr xs)])\<rparr>,
               alerts = [], console = []\<rparr>)"
  using assms by (simp add: loadFromDiscoverer_def loadFromDiscoverer_try_def)

section \<open>Properties\<close>

subsection \<open>Property access and conversions\<close>

lemma get_prop_non_null: "v \<noteq> JNull \<Longrightarrow> get_prop v name = Inr (get_prop_opt v name)"
  by (cases v) simp_all


subsection \<open>Task poller\<close>




text \<open>
  Claim C2, as amended. When the initial response is a JSON value other than \<^verbatim>\<open>null\<close> and
  has no \<^verbatim>\<open>task_id\<close> property, \<open>executeTask\<close> returns that response, and the submission is
  the only request it issues.
\<close>

theorem executeTask_synchronous:
  assumes "apiCall_response x = Returned initialResponse"
      and "initialResponse \<noteq> JNull"
      and "get_prop_opt initialResponse ''task_id'' = None"
  shows "executeTask JSON_stringify base endpoint payload (x # rs) =
           (Returned initialResponse, [submit_call JSON_stringify base endpoint payload])"
  using assms get_prop_non_null [OF assms(2), of "''task_id''"]
  by (simp add: executeTask_def apiCall_def submit_call_def)

theorem executeTask_synchronous_witness:
  "apiCall_response (http_ok (JObj [(''status'', JStr ''success''), (''by_company'', JObj []),
                                     (''unclassified'', JArr [])]))
     = Returned (JObj [(''status'', JStr ''success''), (''by_company'', JObj []), (''unclassified'', JArr [])])
   \<and> JObj [(''status'', JStr ''success''), (''by_company'', JObj []), (''unclassified'', JArr [])] \<noteq> JNull
   \<and> get_prop_opt (JObj [(''status'', JStr ''success''), (''by_company'', JObj []), (''unclassified'', JArr [])])
        ''task_id'' = None
   \<and> executeTask sample_JSON_stringify ''http://localhost:8000'' ''/classify'' sample_payload
        [http_ok (JObj [(''status'', JStr ''success''), (''by_company'', JObj []), (''unclassified'', JArr [])])]
     = (Returned (JObj [(''status'', JStr ''success''), (''by_company'', JObj []), (''unclassified'', JArr [])]),
        [submit_call sample_JSON_stringify ''http://localhost:8000'' ''/classify'' sample_payload])"
proof -
  let ?v = "JObj [(''status'', JStr ''success''), (''by_company'', JObj []), (''unclassified'', JArr [])]"
  have a: "apiCall_response (http_ok ?v) = Returned ?v"
    by (simp add: http_ok_def apiCall_response_def ok_def)
  have n: "?v \<noteq> JNull"
    by simp
  have b: "get_prop_opt ?v ''task_id'' = None"
    by simp
  show ?thesis
    using a n b executeTask_synchronous [OF a n b, of sample_JSON_stringify "''http://localhost:8000''"
        "''/classify''" sample_payload "[]"]
    by simp
qed

text \<open>
  Claim C2 as stated fails for the response body \<^verbatim>\<open>null\<close>: it contains no task identifier,
  and \<open>executeTask\<close> does not return it; reading \<^verbatim>\<open>initialResponse.task_id\<close> throws a
  TypeError.
\<close>

theorem executeTask_null_response_counterexample:
  "apiCall_response (http_ok JNull) = Returned JNull
   \<and> get_prop_opt JNull ''task_id'' = None
   \<and> executeTask sample_JSON_stringify ''http://localhost:8000''
             (NEWS_DISCOVERER ''http://localhost:8000'') sample_payload [http_ok JNull]
     = (Threw TypeError,
        [submit_call sample_JSON_stringify ''http://localhost:8000''
          (NEWS_DISCOVERER ''http://localhost:8000'') sample_payload])"
  by (simp add: executeTask_def apiCall_def submit_call_def http_ok_def apiCall_response_def ok_def)

text \<open>
  Claim C10. A \<^verbatim>\<open>task_id\<close> property that is present but falsy (the empty string, 0,
  \<^verbatim>\<open>null\<close> or \<^verbatim>\<open>false\<close>) is treated as no task identifier: the response is returned
  unchanged and no status or result call is issued.
\<close>

theorem executeTask_falsy_task_id:
  assumes "apiCall_response x = Returned initialResponse"
      and "get_prop initialResponse ''task_id'' = Inr (Some t)"
      and "t \<in> {JStr [], JNum ''0'', JNull, JBool False}"
  shows "executeTask JSON_stringify base endpoint payload (x # rs) =
           (Returned initialResponse, [submit_call JSON_stringify base endpoint payload])"
  using assms by (auto simp add: executeTask_def apiCall_def submit_call_def)

theorem executeTask_falsy_task_id_witness:
  "apiCall_response (http_ok (JObj [(''task_id'', JStr []), (''articles'', JArr [])]))
     = Returned (JObj [(''task_id'', JStr []), (''articles'', JArr [])])
   \<and> get_prop (JObj [(''task_id'', JStr []), (''articles'', JArr [])]) ''task_id'' = Inr (Some (JStr []))
   \<and> JStr [] \<in> {JStr [], JNum ''0'', JNull, JBool False}
   \<and> executeTask sample_JSON_stringify ''http://localhost:8000''
        (NEWS_DISCOVERER ''http://localhost:8000'') sample_payload
        [http_ok (JObj [(''task_id'', JStr []), (''articles'', JArr [])]),
         http_ok (JObj [(''status'', JStr ''completed'')])]
     = (Returned (JObj [(''task_id'', JStr []), (''articles'', JArr [])]),
        [submit_call sample_JSON_stringify ''http://localhost:8000''
           (NEWS_DISCOVERER ''http://localhost:8000'') sample_payload])"
proof -
  let ?v = "JObj [(''task_id'', JStr []), (''articles'', JArr [])]"
  have a: "apiCall_response (http_ok ?v) = Returned ?v"
    by (simp add: http_ok_def apiCall_response_def ok_def)
  have b: "get_prop ?v ''task_id'' = Inr (Some (JStr []))"
    by simp
  have c: "JStr [] \<in> {JStr [], JNum ''0'', JNull, JBool False}"
    by simp
  show ?thesis
    using a b c executeTask_falsy_task_id [OF a b c, of sample_JSON_stringify "''http://localhost:8000''"
        "NEWS_DISCOVERER ''http://localhost:8000''" sample_payload
        "[http_ok (JObj [(''status'', JStr ''completed'')])]"]
    by simp
qed




text \<open>
  Claim C8. The poll loop has no bound of its own: for a task identifier with a string
  conversion, as long as the answers are non-terminal, \<open>executeTask\<close> has neither returned
  nor thrown and has issued one status call more than it has received answers; and
  non-terminal answer sequences of every length \<open>n\<close> exist.
\<close>

theorem poll_loop_unbounded:
  assumes "asynchronous x task_id"
      and "ToString task_id = Inr t"
  shows "(\<forall>rs. (\<forall>y\<in>set rs. non_terminal y) \<longrightarrow>
            fst (executeTask JSON_stringify base endpoint payload (x # rs)) = Pending
            \<and> count_list (snd (executeTask JSON_stringify base endpoint payload (x # rs)))
                 (status_call base t) = Suc (length rs))
         \<and> (\<exists>rs. length rs = n \<and> (\<forall>y\<in>set rs. non_terminal y))"
proof (intro conjI allI impI)
  fix rs assume nt: "\<forall>y\<in>set rs. non_terminal y"
  then show "fst (executeTask JSON_stringify base endpoint payload (x # rs)) = Pending"
    using assms(1) by (simp add: executeTask_asynchronous poll_all_non_terminal [OF assms(2)])
  from nt have tw: "takeWhile non_terminal rs = rs" and dw: "dropWhile non_terminal rs = []"
    by simp_all
  have "snd (executeTask JSON_stringify base endpoint payload (x # rs)) =
          submit_call JSON_stringify base endpoint payload
          # (concat (replicate (length rs) [status_call base t, SetTimeout 2000])
             @ [status_call base t])"
    using assms(1) by (simp add: executeTask_asynchronous poll_trace [OF assms(2)] tw dw)
  then show "count_list (snd (executeTask JSON_stringify base endpoint payload (x # rs)))
               (status_call base t) = Suc (length rs)"
    using count_list_rounds [of "status_call base t" "SetTimeout 2000" "length rs"]
          submit_call_neq_status_call [of JSON_stringify base endpoint payload t]
          status_call_neq_timeout(1) [of base t 2000]
    by simp
next
  let ?running = "Resolved \<lparr>status = 200, statusText = ''OK'',
                     json_body = Some (JObj [(''status'', JStr ''running'')])\<rparr>"
  have "non_terminal ?running"
    by (simp add: non_terminal_def status_of_def apiCall_response_def ok_def)
  then have "length (replicate n ?running) = n \<and> (\<forall>y\<in>set (replicate n ?running). non_terminal y)"
    by simp
  then show "\<exists>rs. length rs = n \<and> (\<forall>y\<in>set rs. non_terminal y)" by blast
qed

theorem poll_loop_unbounded_witness:
  "asynchronous (http_ok (JObj [(''task_id'', JStr ''t1'')])) (JStr ''t1'')
   \<and> ToString (JStr ''t1'') = Inr ''t1''
   \<and> non_terminal (http_ok (JObj [(''status'', JStr ''running'')]))
   \<and> fst (executeTask sample_JSON_stringify ''http://localhost:8000''
             (NEWS_DISCOVERER ''http://localhost:8000'') sample_payload
             (http_ok (JObj [(''task_id'', JStr ''t1'')])
              # replicate 3 (http_ok (JObj [(''status'', JStr ''running'')])))) = Pending
   \<and> count_list (snd (executeTask sample_JSON_stringify ''http://localhost:8000''
             (NEWS_DISCOVERER ''http://localhost:8000'') sample_payload
             (http_ok (JObj [(''task_id'', JStr ''t1'')])
              # replicate 3 (http_ok (JObj [(''status'', JStr ''running'')])))))
        (status_call ''http://localhost:8000'' ''t1'') = 4
   \<and> (\<exists>rs. length rs = (3::nat) \<and> (\<forall>y\<in>set rs. non_terminal y))"
proof -
  have h: "asynchronous (http_ok (JObj [(''task_id'', JStr ''t1'')])) (JStr ''t1'')"
    by (simp add: asynchronous_def http_ok_def apiCall_response_def ok_def)
  have c: "ToString (JStr ''t1'') = Inr ''t1''"
    by simp
  have nt: "\<forall>y\<in>set (replicate 3 (http_ok (JObj [(''status'', JStr ''running'')]))). non_terminal y"
    by (simp add: non_terminal_def status_of_def http_ok_def apiCall_response_def ok_def)
  note u = poll_loop_unbounded [OF h c, where JSON_stringify = sample_JSON_stringify
        and base = "''http://localhost:8000''" and endpoint = "NEWS_DISCOVERER ''http://localhost:8000''"
        and payload = sample_payload and n = 3]
  from u have ex: "\<exists>rs. length rs = (3::nat) \<and> (\<forall>y\<in>set rs. non_terminal y)"
    by (rule conjunct2)
  from u nt have
    "fst (executeTask sample_JSON_stringify ''http://localhost:8000''
             (NEWS_DISCOVERER ''http://localhost:8000'') sample_payload
             (http_ok (JObj [(''task_id'', JStr ''t1'')])
              # replicate 3 (http_ok (JObj [(''status'', JStr ''running'')])))) = Pending
     \<and> count_list (snd (executeTask sample_JSON_stringify ''http://localhost:8000''
             (NEWS_DISCOVERER ''http://localhost:8000'') sample_payload
             (http_ok (JObj [(''task_id'', JStr ''t1'')])
              # replicate 3 (http_ok (JObj [(''status'', JStr ''running'')])))))
        (status_call ''http://localhost:8000'' ''t1'')
       = Suc (length (replicate 3 (http_ok (JObj [(''status'', JStr ''running'')]))))"
    by blast
  with h c nt ex show ?thesis by simp
qed

subsection \<open>Request client\<close>

text \<open>
  Claim C5. A response whose status is outside 200 to 299, in particular any status from 400
  up, makes \<open>apiCall\<close> throw an Error that carries the status code and the status text,
  whatever the body is. A response with a success status returns the decoded body, and
  throws a SyntaxError, which is not that Error, when the body is not JSON.
\<close>

theorem apiCall_status_handling:
  "(400 \<le> status r \<longrightarrow> \<not> ok r)
   \<and> (\<not> ok r \<longrightarrow>
        fst (apiCall base endpoint options (Resolved r # rest)) =
          Threw (Error (''API Error: '' @ string_of_nat (status r) @ '' '' @ statusText r)))
   \<and> (ok r \<longrightarrow>
        fst (apiCall base endpoint options (Resolved r # rest)) =
          (case json_body r of None \<Rightarrow> Threw SyntaxError | Some v \<Rightarrow> Returned v))
   \<and> (\<forall>msg. SyntaxError \<noteq> Error msg)"
  by (simp add: apiCall_def apiCall_response_def ok_def)

theorem apiCall_status_handling_witness:
  "(400::nat) \<le> status \<lparr>status = 404, statusText = ''Not Found'', json_body = Some (JObj [(''task_id'', JStr ''t1'')])\<rparr>
   \<and> \<not> ok \<lparr>status = 404, statusText = ''Not Found'', json_body = Some (JObj [(''task_id'', JStr ''t1'')])\<rparr>
   \<and> fst (apiCall ''http://localhost:8000'' ''/classify'' no_options
             [Resolved \<lparr>status = 404, statusText = ''Not Found'',
                        json_body = Some (JObj [(''task_id'', JStr ''t1'')])\<rparr>])
     = Threw (Error ''API Error: 404 Not Found'')
   \<and> ok \<lparr>status = 200, statusText = ''OK'', json_body = Some (JArr [])\<rparr>
   \<and> fst (apiCall ''http://localhost:8000'' ''/classify'' no_options
             [Resolved \<lparr>status = 200, statusText = ''OK'', json_body = Some (JArr [])\<rparr>])
     = Returned (JArr [])
   \<and> ok \<lparr>status = 200, statusText = ''OK'', json_body = None\<rparr>
   \<and> fst (apiCall ''http://localhost:8000'' ''/classify'' no_options
             [Resolved \<lparr>status = 200, statusText = ''OK'', json_body = None\<rparr>])
     = Threw SyntaxError"
proof -
  have sn: "string_of_nat 404 = ''404''" by code_simp
  show ?thesis
  using
    apiCall_status_handling [of "\<lparr>status = 404, statusText = ''Not Found'',
        json_body = Some (JObj [(''task_id'', JStr ''t1'')])\<rparr>" "''http://localhost:8000''" "''/classify''" no_options "[]"]
    apiCall_status_handling [of "\<lparr>status = 200, statusText = ''OK'', json_body = Some (JArr [])\<rparr>"
        "''http://localhost:8000''" "''/classify''" no_options "[]"]
    apiCall_status_handling [of "\<lparr>status = 200, statusText = ''OK'', json_body = None\<rparr>"
        "''http://localhost:8000''" "''/classify''" no_options "[]"]
  by (simp add: ok_def sn del: string_of_nat.simps)
qed

text \<open>
  Claim C3. The claim says that caller-supplied headers are merged with the default
  \<^verbatim>\<open>Content-Type: application/json\<close>. The code computes this merge and then spreads
  \<open>options\<close> over it, so the \<^verbatim>\<open>headers\<close> property of \<open>options\<close> replaces the merged object:
  a caller that supplies only an \<^verbatim>\<open>Authorization\<close> header sends a request without
  \<^verbatim>\<open>Content-Type\<close>, although the merge the code built holds both.
\<close>

theorem apiCall_headers_replace_default:
  "headers (apiCall_init \<lparr>http_method = Some ''POST'', headers = Some [(''Authorization'', ''Bearer abc'')],
                          body = None\<rparr>)
     = Some [(''Authorization'', ''Bearer abc'')]
   \<and> merged_headers \<lparr>http_method = Some ''POST'', headers = Some [(''Authorization'', ''Bearer abc'')],
                      body = None\<rparr>
     = [(''Content-Type'', ''application/json''), (''Authorization'', ''Bearer abc'')]"
  by (simp add: apiCall_init_def merged_headers_def spread_def)

subsection \<open>Artifact cache\<close>

text \<open>
  Claim C6, as amended. \<open>handleDiscover\<close> writes the JSON text of \<^verbatim>\<open>data.articles\<close> (of the
  empty list when that is not an array) under \<^verbatim>\<open>bynd:last_discovered_articles\<close>, then the
  query under \<^verbatim>\<open>bynd:last_discovered_query\<close> and the timestamp under
  \<^verbatim>\<open>bynd:last_discovered_at\<close>. When all three writes succeed, each entry holds the new
  value, whatever the store held before. When moreover \<^verbatim>\<open>JSON.stringify\<close> gives a non-empty
  text for the list and \<^verbatim>\<open>JSON.parse\<close> gives the list back from it, \<open>loadFromDiscoverer\<close>
  then loads a list equal to the stored one if it is not empty; for the empty list it
  reports that nothing was found and leaves its state as it was.
\<close>

theorem publish_then_load:
  assumes "handleDiscover_persist JSON_stringify data query now store = (store', [])"
      and "discovered_articles data = xs"
      and "JSON_stringify (JArr xs) \<noteq> []"
      and "JSON_parse (JSON_stringify (JArr xs)) = Some (JArr xs)"
  shows "getItem store' ''bynd:last_discovered_articles'' = Some (JSON_stringify (JArr xs))
       \<and> getItem store' ''bynd:last_discovered_query'' = Some query
       \<and> getItem store' ''bynd:last_discovered_at'' = Some now
       \<and> loadFromDiscoverer JSON_parse JSON_stringify_pretty store' st =
           (if xs = [] then
              \<lparr>page = st, alerts = [''No discovered articles found. Run News Discoverer first.''],
               console = []\<rparr>
            else
              \<lparr>page = st\<lparr>discovered := xs, selectedIndex := - 1,
                          articles := JSON_stringify_pretty (JObj [(''articles'', JArr xs)])\<rparr>,
               alerts = [], console = []\<rparr>)"
proof -
  have stored: "getItem store' ''bynd:last_discovered_articles'' = Some (JSON_stringify (JArr xs))"
    and q: "getItem store' ''bynd:last_discovered_query'' = Some query"
    and at: "getItem store' ''bynd:last_discovered_at'' = Some now"
    using persist_ok [OF assms(1)] assms(2) by simp_all
  show ?thesis
    using stored q at
      load_stored [of store' "JSON_stringify (JArr xs)" JSON_parse xs JSON_stringify_pretty st]
      assms(3) assms(4)
    by simp
qed

theorem publish_then_load_witness:
  "handleDiscover_persist sample_JSON_stringify
      (JObj [(''articles'', JArr sample_articles), (''total_found'', JNum ''1'')])
      ''AI companies'' ''2025-01-01T00:00:00.000Z''
      \<lparr>items = [(''bynd:last_discovered_articles'', ''[]'')], capacity = None\<rparr>
     = (\<lparr>items = [(''bynd:last_discovered_articles'', sample_JSON_stringify (JArr sample_articles)),
                  (''bynd:last_discovered_query'', ''AI companies''),
                  (''bynd:last_discovered_at'', ''2025-01-01T00:00:00.000Z'')],
         capacity = None\<rparr>, [])
   \<and> discovered_articles (JObj [(''articles'', JArr sample_articles), (''total_found'', JNum ''1'')])
     = sample_articles
   \<and> sample_JSON_stringify (JArr sample_articles) \<noteq> []
   \<and> sample_JSON_parse (sample_JSON_stringify (JArr sample_articles)) = Some (JArr sample_articles)
   \<and> getItem \<lparr>items = [(''bynd:last_discovered_articles'', sample_JSON_stringify (JArr sample_articles)),
                  (''bynd:last_discovered_query'', ''AI companies''),
                  (''bynd:last_discovered_at'', ''2025-01-01T00:00:00.000Z'')],
         capacity = None\<rparr> ''bynd:last_discovered_articles''
     = Some (sample_JSON_stringify (JArr sample_articles))
   \<and> getItem \<lparr>items = [(''bynd:last_discovered_articles'', sample_JSON_stringify (JArr sample_articles)),
                  (''bynd:last_discovered_query'', ''AI companies''),
                  (''bynd:last_discovered_at'', ''2025-01-01T00:00:00.000Z'')],
         capacity = None\<rparr> ''bynd:last_discovered_query''
     = Some ''AI companies''
   \<and> getItem \<lparr>items = [(''bynd:last_discovered_articles'', sample_JSON_stringify (JArr sample_articles)),
                  (''bynd:last_discovered_query'', ''AI companies''),
                  (''bynd:last_discovered_at'', ''2025-01-01T00:00:00.000Z'')],
         capacity = None\<rparr> ''bynd:last_discovered_at''
     = Some ''2025-01-01T00:00:00.000Z''
   \<and> loadFromDiscoverer sample_JSON_parse sample_JSON_stringify_pretty
        \<lparr>items = [(''bynd:last_discovered_articles'', sample_JSON_stringify (JArr sample_articles)),
                  (''bynd:last_discovered_query'', ''AI companies''),
                  (''bynd:last_discovered_at'', ''2025-01-01T00:00:00.000Z'')],
         capacity = None\<rparr>
        \<lparr>discovered = [], selectedIndex = - 1, articles = []\<rparr>
     = \<lparr>page = \<lparr>discovered = sample_articles, selectedIndex = - 1,
                 articles = sample_JSON_stringify_pretty (JObj [(''articles'', JArr sample_articles)])\<rparr>,
        alerts = [], console = []\<rparr>"
proof -
  let ?data = "JObj [(''articles'', JArr sample_articles), (''total_found'', JNum ''1'')]"
  let ?store' = "\<lparr>items = [(''bynd:last_discovered_articles'', sample_JSON_stringify (JArr sample_articles)),
                  (''bynd:last_discovered_query'', ''AI companies''),
                  (''bynd:last_discovered_at'', ''2025-01-01T00:00:00.000Z'')],
         capacity = None\<rparr>"
  have d: "discovered_articles ?data = sample_articles"
    by (simp add: discovered_articles_def)
  have p: "handleDiscover_persist sample_JSON_stringify ?data ''AI companies'' ''2025-01-01T00:00:00.000Z''
      \<lparr>items = [(''bynd:last_discovered_articles'', ''[]'')], capacity = None\<rparr> = (?store', [])"
    by (simp add: handleDiscover_persist_def d setItem_def Let_def)
  have n: "sample_JSON_stringify (JArr sample_articles) \<noteq> []"
    by (simp add: sample_JSON_stringify_def sample_payload_def)
  have r: "sample_JSON_parse (sample_JSON_stringify (JArr sample_articles)) = Some (JArr sample_articles)"
    by (simp add: sample_JSON_stringify_def sample_JSON_parse_def sample_payload_def)
  have ne: "sample_articles \<noteq> []"
    by (simp add: sample_articles_def)
  show ?thesis
    using p d n r ne
      publish_then_load [where JSON_stringify = sample_JSON_stringify
        and JSON_parse = sample_JSON_parse
        and JSON_stringify_pretty = sample_JSON_stringify_pretty
        and data = ?data and query = "''AI companies''" and now = "''2025-01-01T00:00:00.000Z''"
        and store = "\<lparr>items = [(''bynd:last_discovered_articles'', ''[]'')], capacity = None\<rparr>"
        and store' = ?store' and xs = sample_articles
        and st = "\<lparr>discovered = [], selectedIndex = - 1, articles = []\<rparr>"]
    by simp
qed

text \<open>
  Claim C6 as stated fails for the empty list: after an empty list is published, the reader
  does not load it; it shows the alert of the missing artifact and keeps the list it held.
\<close>

theorem publish_empty_list_counterexample:
  "discovered (page (loadFromDiscoverer sample_JSON_parse sample_JSON_stringify_pretty
      (fst (handleDiscover_persist sample_JSON_stringify (JObj [(''articles'', JArr [])])
              ''AI companies'' ''2025-01-01T00:00:00.000Z'' \<lparr>items = [], capacity = None\<rparr>))
      \<lparr>discovered = sample_articles, selectedIndex = - 1, articles = []\<rparr>)) \<noteq> []
   \<and> alerts (loadFromDiscoverer sample_JSON_parse sample_JSON_stringify_pretty
      (fst (handleDiscover_persist sample_JSON_stringify (JObj [(''articles'', JArr [])])
              ''AI companies'' ''2025-01-01T00:00:00.000Z'' \<lparr>items = [], capacity = None\<rparr>))
      \<lparr>discovered = sample_articles, selectedIndex = - 1, articles = []\<rparr>)
     = [''No discovered articles found. Run News Discoverer first.'']"
  by (simp add: loadFromDiscoverer_def loadFromDiscoverer_try_def handleDiscover_persist_def
      discovered_articles_def setItem_def getItem_def sample_JSON_parse_def sample_JSON_stringify_def
      sample_articles_def sample_payload_def Let_def)

text \<open>
  Claim C7, as amended. When nothing, or the empty text, is stored under
  \<^verbatim>\<open>bynd:last_discovered_articles\<close>, \<open>loadFromDiscoverer\<close> reports the artifact as absent:
  it shows the alert \<^verbatim>\<open>No discovered articles found. Run News Discoverer first.\<close> and
  leaves the state of the page as it was; a stored JSON text that is not a non-empty array
  is reported in the same way. A stored non-empty text that is not JSON is handled as a
  failure: the SyntaxError of the \<^verbatim>\<open>try\<close> body is caught and logged with
  \<^verbatim>\<open>console.error\<close>, the alert \<^verbatim>\<open>Failed to load discovered articles\<close> is shown, and the
  state of the page stays as it was. In none of these cases is an error thrown to the caller.
\<close>

theorem loadFromDiscoverer_absent_or_corrupted:
  "(getItem store ''bynd:last_discovered_articles'' = None
      \<or> getItem store ''bynd:last_discovered_articles'' = Some [] \<longrightarrow>
      loadFromDiscoverer JSON_parse JSON_stringify_pretty store st =
        \<lparr>page = st, alerts = [''No discovered articles found. Run News Discoverer first.''],
         console = []\<rparr>)
   \<and> (getItem store ''bynd:last_discovered_articles'' = Some raw \<and> raw \<noteq> []
        \<and> JSON_parse raw = Some v \<and> (\<forall>xs. v = JArr xs \<longrightarrow> xs = []) \<longrightarrow>
        loadFromDiscoverer JSON_parse JSON_stringify_pretty store st =
          \<lparr>page = st, alerts = [''No discovered articles found. Run News Discoverer first.''],
           console = []\<rparr>)
   \<and> (getItem store ''bynd:last_discovered_articles'' = Some raw \<and> raw \<noteq> [] \<and> JSON_parse raw = None \<longrightarrow>
        loadFromDiscoverer_try JSON_parse JSON_stringify_pretty store st = Inl SyntaxError
        \<and> loadFromDiscoverer JSON_parse JSON_stringify_pretty store st =
            \<lparr>page = st, alerts = [''Failed to load discovered articles''], console = [SyntaxError]\<rparr>)"
proof (intro conjI impI)
  assume "getItem store ''bynd:last_discovered_articles'' = None
      \<or> getItem store ''bynd:last_discovered_articles'' = Some []"
  then show "loadFromDiscoverer JSON_parse JSON_stringify_pretty store st =
        \<lparr>page = st, alerts = [''No discovered articles found. Run News Discoverer first.''],
         console = []\<rparr>"
    by (auto simp add: loadFromDiscoverer_def loadFromDiscoverer_try_def)
next
  assume a: "getItem store ''bynd:last_discovered_articles'' = Some raw \<and> raw \<noteq> []
        \<and> JSON_parse raw = Some v \<and> (\<forall>xs. v = JArr xs \<longrightarrow> xs = [])"
  then show "loadFromDiscoverer JSON_parse JSON_stringify_pretty store st =
          \<lparr>page = st, alerts = [''No discovered articles found. Run News Discoverer first.''],
           console = []\<rparr>"
    by (cases v) (simp_all add: loadFromDiscoverer_def loadFromDiscoverer_try_def)
next
  assume b: "getItem store ''bynd:last_discovered_articles'' = Some raw \<and> raw \<noteq> [] \<and> JSON_parse raw = None"
  then show "loadFromDiscoverer_try JSON_parse JSON_stringify_pretty store st = Inl SyntaxError"
    by (simp add: loadFromDiscoverer_try_def)
  from b show "loadFromDiscoverer JSON_parse JSON_stringify_pretty store st =
            \<lparr>page = st, alerts = [''Failed to load discovered articles''], console = [SyntaxError]\<rparr>"
    by (simp add: loadFromDiscoverer_def loadFromDiscoverer_try_def)
qed

theorem loadFromDiscoverer_absent_or_corrupted_witness:
  "getItem \<lparr>items = [], capacity = None\<rparr> ''bynd:last_discovered_articles'' = None
   \<and> loadFromDiscoverer sample_JSON_parse sample_JSON_stringify_pretty \<lparr>items = [], capacity = None\<rparr>
        \<lparr>discovered = [], selectedIndex = - 1, articles = []\<rparr>
     = \<lparr>page = \<lparr>discovered = [], selectedIndex = - 1, articles = []\<rparr>,
        alerts = [''No discovered articles found. Run News Discoverer first.''], console = []\<rparr>
   \<and> getItem \<lparr>items = [(''bynd:last_discovered_articles'', [])], capacity = None\<rparr> ''bynd:last_discovered_articles'' = Some []
   \<and> loadFromDiscoverer sample_JSON_parse sample_JSON_stringify_pretty
        \<lparr>items = [(''bynd:last_discovered_articles'', [])], capacity = None\<rparr>
        \<lparr>discovered = [], selectedIndex = - 1, articles = []\<rparr>
     = \<lparr>page = \<lparr>discovered = [], selectedIndex = - 1, articles = []\<rparr>,
        alerts = [''No discovered articles found. Run News Discoverer first.''], console = []\<rparr>
   \<and> getItem \<lparr>items = [(''bynd:last_discovered_articles'', ''null'')], capacity = None\<rparr> ''bynd:last_discovered_articles'' = Some ''null''
   \<and> ''null'' \<noteq> []
   \<and> sample_JSON_parse ''null'' = Some JNull
   \<and> loadFromDiscoverer sample_JSON_parse sample_JSON_stringify_pretty
        \<lparr>items = [(''bynd:last_discovered_articles'', ''null'')], capacity = None\<rparr>
        \<lparr>discovered = [], selectedIndex = - 1, articles = []\<rparr>
     = \<lparr>page = \<lparr>discovered = [], selectedIndex = - 1, articles = []\<rparr>,
        alerts = [''No discovered articles found. Run News Discoverer first.''], console = []\<rparr>
   \<and> getItem \<lparr>items = [(''bynd:last_discovered_articles'', ''[{oops'')], capacity = None\<rparr>
        ''bynd:last_discovered_articles'' = Some ''[{oops''
   \<and> ''[{oops'' \<noteq> []
   \<and> sample_JSON_parse ''[{oops'' = None
   \<and> loadFromDiscoverer_try sample_JSON_parse sample_JSON_stringify_pretty
        \<lparr>items = [(''bynd:last_discovered_articles'', ''[{oops'')], capacity = None\<rparr>
        \<lparr>discovered = [], selectedIndex = - 1, articles = []\<rparr> = Inl SyntaxError
   \<and> loadFromDiscoverer sample_JSON_parse sample_JSON_stringify_pretty
        \<lparr>items = [(''bynd:last_discovered_articles'', ''[{oops'')], capacity = None\<rparr>
        \<lparr>discovered = [], selectedIndex = - 1, articles = []\<rparr>
     = \<lparr>page = \<lparr>discovered = [], selectedIndex = - 1, articles = []\<rparr>,
        alerts = [''Failed to load discovered articles''], console = [SyntaxError]\<rparr>"
proof -
  have a: "getItem \<lparr>items = [], capacity = None\<rparr> ''bynd:last_discovered_articles'' = None"
    by (simp add: getItem_def)
  have e: "getItem \<lparr>items = [(''bynd:last_discovered_articles'', [])], capacity = None\<rparr> ''bynd:last_discovered_articles'' = Some []"
    by (simp add: getItem_def)
  have n: "getItem \<lparr>items = [(''bynd:last_discovered_articles'', ''null'')], capacity = None\<rparr> ''bynd:last_discovered_articles'' = Some ''null''"
    by (simp add: getItem_def)
  have np: "sample_JSON_parse ''null'' = Some JNull"
    by (simp add: sample_JSON_parse_def)
  have b: "getItem \<lparr>items = [(''bynd:last_discovered_articles'', ''[{oops'')], capacity = None\<rparr>
        ''bynd:last_discovered_articles'' = Some ''[{oops''"
    by (simp add: getItem_def)
  have c: "sample_JSON_parse ''[{oops'' = None"
    by (simp add: sample_JSON_parse_def)
  show ?thesis
    using a e n np b c
      loadFromDiscoverer_absent_or_corrupted [where store = "\<lparr>items = [], capacity = None\<rparr>"
        and JSON_parse = sample_JSON_parse and JSON_stringify_pretty = sample_JSON_stringify_pretty
        and st = "\<lparr>discovered = [], selectedIndex = - 1, articles = []\<rparr>"]
      loadFromDiscoverer_absent_or_corrupted [where
        store = "\<lparr>items = [(''bynd:last_discovered_articles'', [])], capacity = None\<rparr>"
        and JSON_parse = sample_JSON_parse and JSON_stringify_pretty = sample_JSON_stringify_pretty
        and st = "\<lparr>discovered = [], selectedIndex = - 1, articles = []\<rparr>"]
      loadFromDiscoverer_absent_or_corrupted [where
        store = "\<lparr>items = [(''bynd:last_discovered_articles'', ''null'')], capacity = None\<rparr>"
        and raw = "''null''" and v = JNull
        and JSON_parse = sample_JSON_parse and JSON_stringify_pretty = sample_JSON_stringify_pretty
        and st = "\<lparr>discovered = [], selectedIndex = - 1, articles = []\<rparr>"]
      loadFromDiscoverer_absent_or_corrupted [where
        store = "\<lparr>items = [(''bynd:last_discovered_articles'', ''[{oops'')], capacity = None\<rparr>"
        and raw = "''[{oops''"
        and JSON_parse = sample_JSON_parse and JSON_stringify_pretty = sample_JSON_stringify_pretty
        and st = "\<lparr>discovered = [], selectedIndex = - 1, articles = []\<rparr>"]
    by simp
qed

text \<open>
  Claim C7 as stated fails for a stored text that is not JSON: its outcome is not the one of
  a name never published. The reader logs the SyntaxError and shows the alert of a failed
  load, where for the missing entry it shows the alert of the absent artifact and logs
  nothing.
\<close>

theorem loadFromDiscoverer_corrupted_counterexample:
  "loadFromDiscoverer sample_JSON_parse sample_JSON_stringify_pretty
      \<lparr>items = [(''bynd:last_discovered_articles'', ''[{oops'')], capacity = None\<rparr>
      \<lparr>discovered = [], selectedIndex = - 1, articles = []\<rparr>
     = \<lparr>page = \<lparr>discovered = [], selectedIndex = - 1, articles = []\<rparr>,
        alerts = [''Failed to load discovered articles''], console = [SyntaxError]\<rparr>
   \<and> loadFromDiscoverer sample_JSON_parse sample_JSON_stringify_pretty
      \<lparr>items = [], capacity = None\<rparr>
      \<lparr>discovered = [], selectedIndex = - 1, articles = []\<rparr>
     = \<lparr>page = \<lparr>discovered = [], selectedIndex = - 1, articles = []\<rparr>,
        alerts = [''No discovered articles found. Run News Discoverer first.''], console = []\<rparr>
   \<and> loadFromDiscoverer sample_JSON_parse sample_JSON_stringify_pretty
      \<lparr>items = [(''bynd:last_discovered_articles'', ''[{oops'')], capacity = None\<rparr>
      \<lparr>discovered = [], selectedIndex = - 1, articles = []\<rparr>
     \<noteq> loadFromDiscoverer sample_JSON_parse sample_JSON_stringify_pretty
      \<lparr>items = [], capacity = None\<rparr>
      \<lparr>discovered = [], selectedIndex = - 1, articles = []\<rparr>"
  by (simp add: loadFromDiscoverer_def loadFromDiscoverer_try_def getItem_def sample_JSON_parse_def)

subsection \<open>Session identity\<close>

text \<open>
  Claim C9. A later render of the same provider gives \<open>useSession\<close> the identifiers of the
  first render, whatever the random draws of the later render are; after \<open>setUserId\<close> or
  \<open>setSessionId\<close> the next render provides the new value, the last write winning; and
  \<open>useSession\<close> with no provider throws its Error.
\<close>

theorem session_identity:
  "useSession (Some (SessionProvider (Some (SessionProvider None r1 r2)) r3 r4))
     = useSession (Some (SessionProvider None r1 r2))
   \<and> useSession (Some (SessionProvider (Some (setUserId v s)) r1 r2)) = Inr (s\<lparr>userId := v\<rparr>)
   \<and> useSession (Some (SessionProvider (Some (setSessionId v s)) r1 r2)) = Inr (s\<lparr>sessionId := v\<rparr>)
   \<and> setUserId v (setUserId w s) = setUserId v s
   \<and> setSessionId v (setSessionId w s) = setSessionId v s
   \<and> useSession None = Inl (Error ''useSession must be used within a SessionProvider'')"
  by (simp add: useSession_def SessionProvider_def setUserId_def setSessionId_def)

end
